theory Spec2Isabelle
  imports Main
begin

section \<open>JavaScript values\<close>

text \<open>
  The gateway (\<^verbatim>\<open>image-compressor-fastify-api\<close>) is JavaScript. The values its handlers
  touch are modelled by one datatype. The code uses a number only through its string form
  and its truthiness, so \<open>JNum\<close> carries the string that \<^verbatim>\<open>Number.prototype.toString\<close>
  gives: \<^verbatim>\<open>50\<close>, \<^verbatim>\<open>50.7\<close>, \<^verbatim>\<open>-3\<close>, \<^verbatim>\<open>1e+21\<close>, \<^verbatim>\<open>NaN\<close>, \<^verbatim>\<open>Infinity\<close>. Both zeros
  print as \<^verbatim>\<open>0\<close>. Strings are lists of 8-bit code units. In an object the properties
  stand in the order JavaScript enumerates them.
\<close>

datatype jsval =
    JUndefined
  | JNull
  | JBool bool
  | JNum string
  | JStr string
  | JArr "jsval list"
  | JObj "(string \<times> jsval) list"

text \<open>
  \<open>ToString\<close> is the ECMAScript abstract operation that \<^verbatim>\<open>parseInt\<close> and
  \<^verbatim>\<open>.toString()\<close> apply. An array joins its items with commas, \<^verbatim>\<open>null\<close> and
  \<^verbatim>\<open>undefined\<close> items printing as nothing. \<open>decimal\<close> prints a natural number; it
  names the indices of arrays and strings.
\<close>

fun decimal :: "nat \<Rightarrow> string" where
  "decimal n =
     (if n < 10 then [''0123456789'' ! n]
      else decimal (n div 10) @ [''0123456789'' ! (n mod 10)])"

declare decimal.simps [simp del]

fun ToString :: "jsval \<Rightarrow> string" and join_items :: "jsval list \<Rightarrow> string" where
  "ToString JUndefined = ''undefined''"
| "ToString JNull = ''null''"
| "ToString (JBool b) = (if b then ''true'' else ''false'')"
| "ToString (JNum s) = s"
| "ToString (JStr s) = s"
| "ToString (JArr xs) = join_items xs"
| "ToString (JObj kvs) = ''[object Object]''"
| "join_items [] = []"
| "join_items (x # xs) =
     (if x = JUndefined \<or> x = JNull then [] else ToString x)
     @ (if xs = [] then [] else CHR '','' # join_items xs)"

text \<open>
  \<^verbatim>\<open>parseInt(string)\<close> with no radix, after ECMA-262: skip leading white space, read
  an optional sign, switch to radix 16 after a \<^verbatim>\<open>0x\<close>/\<^verbatim>\<open>0X\<close> prefix, take the
  longest run of digits of the radix, and answer \<^verbatim>\<open>NaN\<close> (here \<open>None\<close>) when that
  run is empty. The result is kept as an exact integer; the rounding of very long digit
  runs to a double never changes how the result compares with 1 and 100.
\<close>

definition code_unit :: "char \<Rightarrow> nat" where
  "code_unit c = of_char c"

definition isWhiteSpace :: "char \<Rightarrow> bool" where
  "isWhiteSpace c \<longleftrightarrow> code_unit c \<in> {9, 10, 11, 12, 13, 32, 160}"

definition digitValue :: "char \<Rightarrow> nat option" where
  "digitValue c =
     (let u = code_unit c in
      if 48 \<le> u \<and> u \<le> 57 then Some (u - 48)
      else if 97 \<le> u \<and> u \<le> 122 then Some (u - 87)
      else if 65 \<le> u \<and> u \<le> 90 then Some (u - 55)
      else None)"

definition isRadixDigit :: "nat \<Rightarrow> char \<Rightarrow> bool" where
  "isRadixDigit R c = (case digitValue c of None \<Rightarrow> False | Some v \<Rightarrow> v < R)"

fun mathInt :: "nat \<Rightarrow> nat \<Rightarrow> string \<Rightarrow> nat" where
  "mathInt R acc [] = acc"
| "mathInt R acc (c # cs) =
     mathInt R (acc * R + (case digitValue c of None \<Rightarrow> 0 | Some v \<Rightarrow> v)) cs"

definition parseInt_string :: "string \<Rightarrow> int option" where
  "parseInt_string inputString =
     (let S = dropWhile isWhiteSpace inputString;
          sign = (if S \<noteq> [] \<and> hd S = CHR ''-'' then - 1 else 1);
          S1 = (if S \<noteq> [] \<and> (hd S = CHR ''+'' \<or> hd S = CHR ''-'') then tl S else S);
          hex = (take 2 S1 = ''0x'' \<or> take 2 S1 = ''0X'');
          R = (if hex then 16 else 10);
          S2 = (if hex then drop 2 S1 else S1);
          Z = takeWhile (isRadixDigit R) S2
      in if Z = [] then None else Some (sign * int (mathInt R 0 Z)))"

definition parseInt :: "jsval \<Rightarrow> int option" where
  "parseInt v = parseInt_string (ToString v)"

text \<open>The leading decimal digits of a string, used to state what \<open>parseInt\<close> reads.\<close>

definition isDecimalDigit :: "char \<Rightarrow> bool" where
  "isDecimalDigit c \<longleftrightarrow> 48 \<le> code_unit c \<and> code_unit c \<le> 57"

text \<open>
  Truthiness (the test behind \<^verbatim>\<open>x && y\<close>) and the reading of a data property, as in
  \<^verbatim>\<open>request.body?.quality\<close>: \<^verbatim>\<open>undefined\<close> and \<^verbatim>\<open>null\<close> give \<^verbatim>\<open>undefined\<close>, an
  array or a string has its \<^verbatim>\<open>length\<close> and its indices. Inherited methods are not
  data and are outside the model.
\<close>

definition truthy :: "jsval \<Rightarrow> bool" where
  "truthy v =
     (case v of
        JUndefined \<Rightarrow> False
      | JNull \<Rightarrow> False
      | JBool b \<Rightarrow> b
      | JNum s \<Rightarrow> s \<noteq> ''0'' \<and> s \<noteq> ''NaN''
      | JStr s \<Rightarrow> s \<noteq> []
      | JArr xs \<Rightarrow> True
      | JObj ps \<Rightarrow> True)"

text \<open>
  An array index is the canonical decimal numeral of an integer from 0 to \<open>2^32 - 2\<close>.
\<close>

definition array_index :: "string \<Rightarrow> nat option" where
  "array_index k =
     (if k \<noteq> [] \<and> list_all isDecimalDigit k \<and> (k = ''0'' \<or> hd k \<noteq> CHR ''0'')
         \<and> mathInt 10 0 k \<le> 4294967294
      then Some (mathInt 10 0 k) else None)"

definition get_property :: "jsval \<Rightarrow> string \<Rightarrow> jsval" where
  "get_property v k =
     (case v of
        JObj ps \<Rightarrow> (case map_of ps k of None \<Rightarrow> JUndefined | Some x \<Rightarrow> x)
      | JArr xs \<Rightarrow>
          (if k = ''length'' then JNum (decimal (length xs))
           else case array_index k of
                  None \<Rightarrow> JUndefined
                | Some n \<Rightarrow> if n < length xs then xs ! n else JUndefined)
      | JStr s \<Rightarrow>
          (if k = ''length'' then JNum (decimal (length s))
           else case array_index k of
                  None \<Rightarrow> JUndefined
                | Some n \<Rightarrow> if n < length s then JStr [s ! n] else JUndefined)
      | _ \<Rightarrow> JUndefined)"

text \<open>
  Object spread \<^verbatim>\<open>{ ...v }\<close> copies the own enumerable properties of its operand, one
  after the other. Setting a property that exists replaces its value where it stands;
  a new array index goes among the array indices, which come first in ascending order;
  any other new key goes to the end.
\<close>

fun replace_value :: "(string \<times> jsval) list \<Rightarrow> string \<Rightarrow> jsval \<Rightarrow> (string \<times> jsval) list" where
  "replace_value [] k v = []"
| "replace_value ((k', v') # ps) k v =
     (if k' = k then (k, v) # ps else (k', v') # replace_value ps k v)"

fun insert_index ::
  "(string \<times> jsval) list \<Rightarrow> nat \<Rightarrow> string \<Rightarrow> jsval \<Rightarrow> (string \<times> jsval) list" where
  "insert_index [] n k v = [(k, v)]"
| "insert_index ((k', v') # ps) n k v =
     (case array_index k' of
        None \<Rightarrow> (k, v) # (k', v') # ps
      | Some m \<Rightarrow> if m < n then (k', v') # insert_index ps n k v else (k, v) # (k', v') # ps)"

definition set_property :: "(string \<times> jsval) list \<Rightarrow> string \<Rightarrow> jsval \<Rightarrow> (string \<times> jsval) list" where
  "set_property obj k v =
     (if map_of obj k \<noteq> None then replace_value obj k v
      else case array_index k of
             None \<Rightarrow> obj @ [(k, v)]
           | Some n \<Rightarrow> insert_index obj n k v)"

definition own_properties :: "jsval \<Rightarrow> (string \<times> jsval) list" where
  "own_properties v =
     (case v of
        JObj ps \<Rightarrow> ps
      | JArr xs \<Rightarrow> zip (map decimal [0..<length xs]) xs
      | JStr s \<Rightarrow> zip (map decimal [0..<length s]) (map (\<lambda>c. JStr [c]) s)
      | _ \<Rightarrow> [])"

definition spread :: "(string \<times> jsval) list \<Rightarrow> jsval \<Rightarrow> (string \<times> jsval) list" where
  "spread obj v = foldl (\<lambda>acc (k, x). set_property acc k x) obj (own_properties v)"

text \<open>\<^verbatim>\<open>String.prototype.includes\<close> and \<^verbatim>\<open>Array.prototype.join\<close>.\<close>

fun startsWith :: "string \<Rightarrow> string \<Rightarrow> bool" where
  "startsWith s [] = True"
| "startsWith [] (c # t) = False"
| "startsWith (a # s) (c # t) = (a = c \<and> startsWith s t)"

fun str_includes :: "string \<Rightarrow> string \<Rightarrow> bool" where
  "str_includes [] t = (t = [])"
| "str_includes (a # s) t = (startsWith (a # s) t \<or> str_includes s t)"

fun join :: "string \<Rightarrow> string list \<Rightarrow> string" where
  "join sep [] = []"
| "join sep [x] = x"
| "join sep (x # y # ys) = x @ sep @ join sep (y # ys)"


section \<open>The codec pipeline (\<^verbatim>\<open>compress_image_bytes\<close>)\<close>



type_synonym buffer = "char list"





section \<open>The gateway's utilities (\<^verbatim>\<open>utils.js\<close>)\<close>

text \<open>
  \<open>parseQuality\<close>:
  \<^verbatim>\<open>const parsed = parseInt(quality);
  if (isNaN(parsed) || parsed < 1 || parsed > 100) return defaultQuality;
  return parsed;\<close>
\<close>

definition parseQuality :: "jsval \<Rightarrow> int \<Rightarrow> int" where
  "parseQuality quality defaultQuality =
     (case parseInt quality of
        None \<Rightarrow> defaultQuality
      | Some parsed \<Rightarrow>
          if parsed < 1 \<or> parsed > 100 then defaultQuality else parsed)"

text \<open>
  The object \<^verbatim>\<open>request.file()\<close> resolves to, as far as the handlers read it:
  \<open>bytesRead\<close> is \<^verbatim>\<open>file.file.bytesRead\<close>, \<open>file_length\<close> is \<^verbatim>\<open>data.file.length\<close>,
  \<open>stream\<close> is the bytes the file stream delivers and \<open>truncated\<close> tells whether the
  parser cut the file at its size limit.
\<close>

record multipart_file =
  mimetype :: string
  filename :: string
  bytesRead :: nat
  file_length :: jsval
  stream :: buffer
  truncated :: bool

text \<open>
  \<open>validateFileUpload\<close> returns \<^verbatim>\<open>{ isValid: true }\<close> or
  \<^verbatim>\<open>{ isValid: false, error }\<close>. The checks run in the order of the source: no file, then
  MIME type, then size. \<^verbatim>\<open>formatBytes\<close> formats the limit with floating-point logarithms
  and \<^verbatim>\<open>toFixed\<close>; it is passed in as a function, so every result holds whatever text it
  produces.
\<close>

datatype validation = Valid | Invalid string

definition validateFileUpload ::
  "(nat \<Rightarrow> string) \<Rightarrow> multipart_file option \<Rightarrow> nat \<Rightarrow> string list \<Rightarrow> validation" where
  "validateFileUpload formatBytes file maxSize allowedMimeTypes =
     (case file of
        None \<Rightarrow> Invalid ''No file provided''
      | Some f \<Rightarrow>
          if mimetype f \<notin> set allowedMimeTypes then
            Invalid (''Invalid file type. Allowed types: '' @ join '', '' allowedMimeTypes)
          else if bytesRead f > maxSize then
            Invalid (''File too large. Maximum size allowed: '' @ formatBytes maxSize)
          else Valid)"

text \<open>
  \<open>createErrorResponse\<close> builds \<^verbatim>\<open>{ error: true, message, ...(details && { details }),
  ...(code && { code }) }\<close>: a \<^verbatim>\<open>null\<close> or empty detail or code leaves the key out.
\<close>

record error_response =
  error :: bool
  message :: string
  details :: "string option"
  code :: "string option"

definition createErrorResponse :: "string \<Rightarrow> string option \<Rightarrow> string option \<Rightarrow> error_response" where
  "createErrorResponse msg dets cd =
     \<lparr> error = True,
       message = msg,
       details = (case dets of None \<Rightarrow> None | Some d \<Rightarrow> if d = [] then None else Some d),
       code = (case cd of None \<Rightarrow> None | Some c \<Rightarrow> if c = [] then None else Some c) \<rparr>"


section \<open>Configuration (\<^verbatim>\<open>config.js\<close>)\<close>

text \<open>
  The part of the configuration the routes read. \<open>default_config\<close> is what
  \<^verbatim>\<open>config.js\<close> computes when the environment variables \<^verbatim>\<open>MAX_FILE_SIZE\<close>,
  \<^verbatim>\<open>ALLOWED_MIME_TYPES\<close>, \<^verbatim>\<open>DEFAULT_QUALITY\<close> and \<^verbatim>\<open>SUPABASE_UPLOAD_PATH\<close> are unset.
\<close>

record config =
  maxSize :: nat
  allowedMimeTypes :: "string list"
  defaultQuality :: int
  uploadPath :: string

definition default_config :: config where
  "default_config =
     \<lparr> maxSize = 10485760,
       allowedMimeTypes = [''image/jpeg'', ''image/png'', ''image/webp''],
       defaultQuality = 80,
       uploadPath = ''compressed'' \<rparr>"


section \<open>Requests as the multipart parser delivers them (\<^verbatim>\<open>server.js\<close>)\<close>

text \<open>
  A request to \<^verbatim>\<open>/compress\<close> is a multipart form: at most one file part is read, and
  the other fields are plain strings. \<open>part_content\<close> is the file as the client sent it;
  \<open>part_consumed\<close> is how many of its bytes the parser has taken in at the moment the
  handler validates.

  \<^verbatim>\<open>registerPlugins\<close> registers \<^verbatim>\<open>@fastify/multipart\<close> with
  \<^verbatim>\<open>limits: { fileSize: config.upload.maxSize }\<close> and nothing else. With that
  registration
  \<^item> the parser stops a file at \<open>fileSize\<close> bytes and marks it truncated when the client
    sent more, so \<^verbatim>\<open>bytesRead\<close> never exceeds the limit (\<open>request_file\<close>);
  \<^item> \<^verbatim>\<open>data.toBuffer()\<close> throws the plugin's error \<^verbatim>\<open>FST_REQ_FILE_TOO_LARGE\<close>, whose
    status code is 413, on a truncated file, and otherwise resolves to the bytes
    (\<open>toBuffer\<close>);
  \<^item> the form fields are not attached to the request, so \<^verbatim>\<open>request.body\<close> is
    \<^verbatim>\<open>undefined\<close> whatever the form carries (\<open>request_body\<close>);
  \<^item> \<^verbatim>\<open>data.file\<close> is a stream, which has no \<^verbatim>\<open>length\<close>.
\<close>

record upload =
  part_mimetype :: string
  part_filename :: string
  part_content :: buffer
  part_consumed :: nat

record request =
  file_part :: "upload option"
  form_fields :: "(string \<times> string) list"

definition request_file :: "nat \<Rightarrow> upload \<Rightarrow> multipart_file" where
  "request_file fileSize u =
     \<lparr> mimetype = part_mimetype u,
       filename = part_filename u,
       bytesRead = min (part_consumed u) (min (length (part_content u)) fileSize),
       file_length = JUndefined,
       stream = take fileSize (part_content u),
       truncated = (fileSize < length (part_content u)) \<rparr>"

definition toBuffer :: "multipart_file \<Rightarrow> (nat \<times> string) + buffer" where
  "toBuffer data =
     (if truncated data then Inl (413, ''FST_REQ_FILE_TOO_LARGE'') else Inr (stream data))"

definition request_body :: "request \<Rightarrow> jsval" where
  "request_body req = JUndefined"


section \<open>The outside world\<close>

text \<open>
  What the gateway reaches over the network or through the runtime is a parameter of
  the model. A \<^verbatim>\<open>fetch\<close> that is sent either rejects with an error message (network
  failure, or the abort raised by the timeout) or resolves to a response with a status
  and a body. A body read with \<^verbatim>\<open>response.json()\<close> is either the text of a JSON value or
  some other text, on which \<^verbatim>\<open>response.json()\<close> throws a \<^verbatim>\<open>SyntaxError\<close>.
\<close>

datatype 'b fetch_outcome = FetchRejected string | FetchResponse nat 'b

definition response_ok :: "nat \<Rightarrow> bool" where
  "response_ok status \<longleftrightarrow> 200 \<le> status \<and> status \<le> 299"

record compress_call =
  call_body :: buffer
  quality_header :: "string option"
  format_header :: "string option"

record options =
  quality :: jsval
  format :: jsval

datatype json_body = JsonBody jsval | NotJson string

datatype storage_outcome = StorageError string | StorageData string

record upload_result =
  key :: string
  url :: string
  size_bytes :: nat
  contentType :: string

record upload_summary = upload_result +
  originalSize :: jsval
  compressionRatio :: string

text \<open>
  \<open>generateUniqueFilename\<close> depends on the clock and on random bytes, and
  \<open>ratioToFixed2\<close> stands for \<^verbatim>\<open>(originalSize / uploadResult.size).toFixed(2)\<close>, a
  floating-point computation; both are functions of the world. \<open>compress_fetch\<close>,
  \<open>health_fetch\<close> and \<open>metrics_fetch\<close> are the compression service's answers on
  \<^verbatim>\<open>/compress\<close>, \<^verbatim>\<open>/health\<close> and \<^verbatim>\<open>/metrics\<close>; \<open>storage_upload\<close> and
  \<open>getPublicUrl\<close> are the storage client.
\<close>

record world =
  formatBytes :: "nat \<Rightarrow> string"
  generateUniqueFilename :: "string \<Rightarrow> string"
  ratioToFixed2 :: "jsval \<Rightarrow> nat \<Rightarrow> string"
  compress_fetch :: "compress_call \<Rightarrow> buffer fetch_outcome"
  health_fetch :: "json_body fetch_outcome"
  metrics_fetch :: "json_body fetch_outcome"
  syntaxErrorMessage :: "string \<Rightarrow> string"
  storage_upload :: "string \<Rightarrow> buffer \<Rightarrow> string \<Rightarrow> storage_outcome"
  getPublicUrl :: "string \<Rightarrow> string"


section \<open>The services (\<^verbatim>\<open>services/compression.js\<close>, \<^verbatim>\<open>services/supabase.js\<close>)\<close>

text \<open>
  \<open>compressImage\<close> takes a buffer or a stream (\<^verbatim>\<open>@param {Buffer|ReadableStream}\<close>) and
  passes it to the runtime's global \<^verbatim>\<open>fetch\<close> as the body, with no \<^verbatim>\<open>duplex\<close> option.
  Given a stream, that \<^verbatim>\<open>fetch\<close> throws the \<^verbatim>\<open>TypeError\<close> of \<open>duplex_required\<close>
  before anything is sent. Given a buffer it sends \<open>compress_request\<close>: the image as
  body, and the headers \<^verbatim>\<open>X-Compression-Quality\<close> and \<^verbatim>\<open>X-Output-Format\<close>, each present
  only when the option is truthy. \<open>compressImage\<close> throws (here \<open>Inl\<close> with the error's
  message) when the fetch throws or rejects or the response is not ok, and otherwise
  returns the response body. Its second component lists the requests it sent.
\<close>

datatype image_data = BufferData buffer | StreamData buffer

definition duplex_required :: string where
  "duplex_required = ''RequestInit: duplex option is required when sending a body.''"

definition compress_request :: "buffer \<Rightarrow> options \<Rightarrow> compress_call" where
  "compress_request imageData opts =
     \<lparr> call_body = imageData,
       quality_header = (if truthy (quality opts) then Some (ToString (quality opts)) else None),
       format_header = (if truthy (format opts) then Some (ToString (format opts)) else None) \<rparr>"

definition compressImage ::
  "world \<Rightarrow> image_data \<Rightarrow> options \<Rightarrow> (string + buffer) \<times> compress_call list" where
  "compressImage w imageData opts =
     (case imageData of
        StreamData s \<Rightarrow> (Inl duplex_required, [])
      | BufferData buf \<Rightarrow>
          let call = compress_request buf opts in
          case compress_fetch w call of
            FetchRejected msg \<Rightarrow> (Inl msg, [call])
          | FetchResponse status b \<Rightarrow>
              if \<not> response_ok status then (Inl (''Compression failed: '' @ b), [call])
              else (Inr b, [call]))"

definition getHealth :: "world \<Rightarrow> string + jsval" where
  "getHealth w =
     (case health_fetch w of
        FetchRejected msg \<Rightarrow> Inl msg
      | FetchResponse status b \<Rightarrow>
          if \<not> response_ok status then Inl ''Health check failed''
          else (case b of
                  JsonBody v \<Rightarrow> Inr v
                | NotJson t \<Rightarrow> Inl (syntaxErrorMessage w t)))"

definition getMetrics :: "world \<Rightarrow> string + jsval" where
  "getMetrics w =
     (case metrics_fetch w of
        FetchRejected msg \<Rightarrow> Inl msg
      | FetchResponse status b \<Rightarrow>
          if \<not> response_ok status then Inl ''Metrics fetch failed''
          else (case b of
                  JsonBody v \<Rightarrow> Inr v
                | NotJson t \<Rightarrow> Inl (syntaxErrorMessage w t)))"

definition uploadFile ::
  "world \<Rightarrow> config \<Rightarrow> buffer \<Rightarrow> string \<Rightarrow> string \<Rightarrow> string + upload_result" where
  "uploadFile w cfg buf fname ctype =
     (let filePath = uploadPath cfg @ ''/'' @ fname in
      case storage_upload w filePath buf ctype of
        StorageError msg \<Rightarrow> Inl (''Supabase upload failed: '' @ msg)
      | StorageData path \<Rightarrow>
          Inr \<lparr> key = path, url = getPublicUrl w filePath,
                size_bytes = length buf, contentType = ctype \<rparr>)"


section \<open>The routes (\<^verbatim>\<open>routes/compression.js\<close>)\<close>

text \<open>
  A handler's answer is the status, the headers it sets itself and the payload it
  sends. \<open>Thrown\<close> is an error that leaves the handler, with its status code and its
  code; Fastify answers it with that status. The file holds two definitions of the
  \<^verbatim>\<open>/compress\<close> handler. \<open>compress_handler_v1\<close> (lines 35-94) passes the stream
  \<^verbatim>\<open>data.file\<close> to \<open>compressImage\<close> and would answer with the upload summary;
  \<open>compress_handler_v2\<close> (lines 154-212) first awaits \<^verbatim>\<open>data.toBuffer()\<close>, outside the
  \<^verbatim>\<open>try\<close> block, and answers with the compressed bytes. Both are modelled as the
  handler functions themselves; the route schemas that Fastify applies before calling
  them and the serialisation after are not part of the model. The second component of
  a handler's result lists the requests it sent to the compression service.
\<close>

datatype payload =
    ErrorJson error_response
  | UploadJson upload_summary
  | BufferBody buffer
  | JsonValue jsval

datatype reply =
    Reply nat "(string \<times> string) list" payload
  | Thrown nat string

definition catch_reply :: "string \<Rightarrow> reply" where
  "catch_reply msg =
     (if str_includes msg ''Compression failed'' then
        Reply 500 [] (ErrorJson (createErrorResponse ''Compression failed'' (Some msg)
                                   (Some ''COMPRESSION_ERROR'')))
      else
        Reply 500 [] (ErrorJson (createErrorResponse ''Upload failed'' (Some msg)
                                   (Some ''UPLOAD_ERROR''))))"

definition request_options :: "request \<Rightarrow> options" where
  "request_options req =
     \<lparr> quality = get_property (request_body req) ''quality'',
       format = get_property (request_body req) ''format'' \<rparr>"

definition compress_handler_v1 :: "world \<Rightarrow> config \<Rightarrow> request \<Rightarrow> reply \<times> compress_call list" where
  "compress_handler_v1 w cfg req =
     (let data = map_option (request_file (maxSize cfg)) (file_part req) in
      case validateFileUpload (formatBytes w) data (maxSize cfg) (allowedMimeTypes cfg) of
        Invalid err \<Rightarrow>
          (Reply 400 [] (ErrorJson (createErrorResponse ''Invalid file'' (Some err)
                                      (Some ''VALIDATION_ERROR''))), [])
      | Valid \<Rightarrow>
          (case data of
             None \<Rightarrow> (Thrown 500 ''TypeError'', [])
           | Some f \<Rightarrow>
               let origSize = file_length f;
                   fname = generateUniqueFilename w (filename f)
               in case compressImage w (StreamData (stream f)) (request_options req) of
                    (Inl msg, calls) \<Rightarrow> (catch_reply msg, calls)
                  | (Inr compressedBuffer, calls) \<Rightarrow>
                      (case uploadFile w cfg compressedBuffer fname (mimetype f) of
                         Inl msg \<Rightarrow> (catch_reply msg, calls)
                       | Inr uploadResult \<Rightarrow>
                           (Reply 200 []
                              (UploadJson
                                 (upload_result.extend uploadResult
                                    \<lparr> originalSize = origSize,
                                      compressionRatio =
                                        ratioToFixed2 w origSize (size_bytes uploadResult) \<rparr>)),
                            calls))))"

definition compress_handler_v2 :: "world \<Rightarrow> config \<Rightarrow> request \<Rightarrow> reply \<times> compress_call list" where
  "compress_handler_v2 w cfg req =
     (let data = map_option (request_file (maxSize cfg)) (file_part req) in
      case validateFileUpload (formatBytes w) data (maxSize cfg) (allowedMimeTypes cfg) of
        Invalid err \<Rightarrow>
          (Reply 400 [] (ErrorJson (createErrorResponse ''Invalid file'' (Some err)
                                      (Some ''VALIDATION_ERROR''))), [])
      | Valid \<Rightarrow>
          (case data of
             None \<Rightarrow> (Thrown 500 ''TypeError'', [])
           | Some f \<Rightarrow>
               (case toBuffer f of
                  Inl (status, errcode) \<Rightarrow> (Thrown status errcode, [])
                | Inr imageBuffer \<Rightarrow>
                    let fname = generateUniqueFilename w (filename f)
                    in case compressImage w (BufferData imageBuffer) (request_options req) of
                         (Inl msg, calls) \<Rightarrow> (catch_reply msg, calls)
                       | (Inr compressedBuffer, calls) \<Rightarrow>
                           (case uploadFile w cfg compressedBuffer fname (mimetype f) of
                              Inl msg \<Rightarrow> (catch_reply msg, calls)
                            | Inr uploadResult \<Rightarrow>
                                (Reply 200 [(''Content-Type'', ''image/jpeg'')]
                                   (BufferBody compressedBuffer), calls)))))"

text \<open>
  \<^verbatim>\<open>GET /health\<close> answers \<^verbatim>\<open>{ status: 'ok', ...health }\<close> with what the compression
  service's \<^verbatim>\<open>/health\<close> returned, or 503 when \<open>getHealth\<close> throws; \<^verbatim>\<open>GET /metrics\<close>
  answers with what \<open>getMetrics\<close> returned, or 500 when it throws.
\<close>

definition health_handler :: "world \<Rightarrow> reply" where
  "health_handler w =
     (case getHealth w of
        Inr health \<Rightarrow>
          Reply 200 [] (JsonValue (JObj (spread [(''status'', JStr ''ok'')] health)))
      | Inl msg \<Rightarrow>
          Reply 503 [] (ErrorJson (createErrorResponse ''Service unavailable'' (Some msg)
                                     (Some ''HEALTH_CHECK_ERROR''))))"

definition metrics_handler :: "world \<Rightarrow> reply" where
  "metrics_handler w =
     (case getMetrics w of
        Inr metrics \<Rightarrow> Reply 200 [] (JsonValue metrics)
      | Inl msg \<Rightarrow>
          Reply 500 [] (ErrorJson (createErrorResponse ''Metrics unavailable'' (Some msg)
                                     (Some ''METRICS_ERROR''))))"


section \<open>Concrete inputs\<close>

text \<open>
  A small PNG upload, a world in which every collaborator answers, and a one-entry
  strategy table; the concrete evaluations below start from these.
\<close>

definition sample_file :: upload where
  "sample_file =
     \<lparr> part_mimetype = ''image/png'', part_filename = ''photo.png'',
       part_content = [CHR 0x89, CHR ''P'', CHR ''N'', CHR ''G''], part_consumed = 4 \<rparr>"

definition sample_world :: world where
  "sample_world =
     \<lparr> formatBytes = (\<lambda>n. ''10 MB''),
       generateUniqueFilename = (\<lambda>n. ''photo-1700000000000-00112233aabbccdd.png''),
       ratioToFixed2 = (\<lambda>a b. ''NaN''),
       compress_fetch = (\<lambda>c. FetchResponse 200 [CHR 0xFF, CHR 0xD8, CHR 0xFF, CHR 0xD9]),
       health_fetch = FetchResponse 200 (JsonBody (JObj [(''status'', JStr ''ok'')])),
       metrics_fetch = FetchResponse 200 (JsonBody (JObj [(''requests_total'', JNum ''3'')])),
       syntaxErrorMessage = (\<lambda>t. ''Unexpected token in JSON at position 0''),
       storage_upload = (\<lambda>p b c. StorageData p),
       getPublicUrl = (\<lambda>p. ''https://storage.example/'' @ p) \<rparr>"

definition sample_request :: request where
  "sample_request = \<lparr> file_part = Some sample_file, form_fields = [] \<rparr>"



section \<open>What \<open>parseInt\<close> reads\<close>

lemma isRadixDigit_10: "isRadixDigit 10 c = isDecimalDigit c"
  by (auto simp: isRadixDigit_def isDecimalDigit_def digitValue_def Let_def)

lemma takeWhile_radix_10: "takeWhile (isRadixDigit 10) s = takeWhile isDecimalDigit s"
  by (simp add: isRadixDigit_10 [abs_def])

lemma decimal_digit_not_space: "isDecimalDigit c \<Longrightarrow> \<not> isWhiteSpace c"
  by (auto simp: isDecimalDigit_def isWhiteSpace_def)

lemma decimal_digit_not_sign: "isDecimalDigit c \<Longrightarrow> c \<noteq> CHR ''-'' \<and> c \<noteq> CHR ''+''"
  by (auto simp: isDecimalDigit_def code_unit_def)

lemma x_not_decimal_digit: "\<not> isDecimalDigit (CHR ''x'')" "\<not> isDecimalDigit (CHR ''X'')"
  by (simp_all add: isDecimalDigit_def code_unit_def)

lemma mathInt_zero_digit: "mathInt 10 0 ''0'' = 0"
  by (simp add: digitValue_def code_unit_def)

lemma parseInt_string_leading_digits:
  assumes ne: "takeWhile isDecimalDigit s \<noteq> []"
    and pos: "1 \<le> mathInt 10 0 (takeWhile isDecimalDigit s)"
  shows "parseInt_string s = Some (int (mathInt 10 0 (takeWhile isDecimalDigit s)))"
proof -
  from ne obtain c s' where s: "s = c # s'" and c: "isDecimalDigit c"
    by (cases s) (auto split: if_splits)
  have ws: "dropWhile isWhiteSpace s = s"
    using s c decimal_digit_not_space by simp
  have sign: "c \<noteq> CHR ''-''" "c \<noteq> CHR ''+''"
    using c decimal_digit_not_sign by blast+
  have nohex: "take 2 s \<noteq> ''0x'' \<and> take 2 s \<noteq> ''0X''"
  proof (rule ccontr)
    assume "\<not> ?thesis"
    then obtain r where "s = CHR ''0'' # CHR ''x'' # r \<or> s = CHR ''0'' # CHR ''X'' # r"
      using s by (cases s') (auto simp: numeral_2_eq_2)
    then have "takeWhile isDecimalDigit s = ''0''"
      using c s x_not_decimal_digit by auto
    with pos mathInt_zero_digit show False by simp
  qed
  have hd: "hd s \<noteq> CHR ''-''" "hd s \<noteq> CHR ''+''"
    using s sign by simp_all
  have nh: "(take 2 s = ''0x'') = False" "(take 2 s = ''0X'') = False"
    using nohex by simp_all
  show ?thesis
    unfolding parseInt_string_def Let_def ws
    by (simp only: hd nh simp_thms if_False if_True takeWhile_radix_10 ne mult_1)
qed

lemma parseQuality_default_iff:
  "(\<forall>d. parseQuality q d = d) \<longleftrightarrow>
     (parseInt q = None \<or> (\<exists>p. parseInt q = Some p \<and> (p < 1 \<or> p > 100)))"
proof (cases "parseInt q")
  case None
  then show ?thesis by (simp add: parseQuality_def)
next
  case (Some p)
  show ?thesis
  proof (cases "p < 1 \<or> p > 100")
    case True
    with Some show ?thesis by (simp add: parseQuality_def)
  next
    case False
    then have "parseQuality q (p + 1) \<noteq> p + 1"
      using Some by (simp add: parseQuality_def)
    with Some False show ?thesis by auto
  qed
qed

text \<open>
  C10. When the string form of the quality argument begins with decimal digits that
  denote an integer between 1 and 100 (as in \<^verbatim>\<open>"50.7"\<close> or \<^verbatim>\<open>"50abc"\<close>),
  \<open>parseQuality\<close> returns that integer, whatever the default. And \<open>parseQuality\<close>
  returns the default for every choice of default exactly when \<open>parseInt\<close> of the
  argument is \<^verbatim>\<open>NaN\<close>, below 1 or above 100. The argument may be a string, a number
  (the number 50.7 gives 50 and the number \<open>10^21\<close>, whose string form is \<^verbatim>\<open>1e+21\<close>,
  gives 1), an array or anything else.
\<close>

theorem parseQuality_leading_integer:
  "(takeWhile isDecimalDigit (ToString q) \<noteq> [] \<and>
    1 \<le> mathInt 10 0 (takeWhile isDecimalDigit (ToString q)) \<and>
    mathInt 10 0 (takeWhile isDecimalDigit (ToString q)) \<le> 100 \<longrightarrow>
      parseQuality q d = int (mathInt 10 0 (takeWhile isDecimalDigit (ToString q))))
   \<and> ((\<forall>d'. parseQuality q d' = d') \<longleftrightarrow>
        (parseInt q = None \<or> (\<exists>p. parseInt q = Some p \<and> (p < 1 \<or> p > 100))))"
proof (intro conjI impI)
  assume h: "takeWhile isDecimalDigit (ToString q) \<noteq> [] \<and>
    1 \<le> mathInt 10 0 (takeWhile isDecimalDigit (ToString q)) \<and>
    mathInt 10 0 (takeWhile isDecimalDigit (ToString q)) \<le> 100"
  then have "parseInt q = Some (int (mathInt 10 0 (takeWhile isDecimalDigit (ToString q))))"
    unfolding parseInt_def using parseInt_string_leading_digits by blast
  with h show "parseQuality q d = int (mathInt 10 0 (takeWhile isDecimalDigit (ToString q)))"
    by (simp add: parseQuality_def)
next
  show "(\<forall>d'. parseQuality q d' = d') \<longleftrightarrow>
        (parseInt q = None \<or> (\<exists>p. parseInt q = Some p \<and> (p < 1 \<or> p > 100)))"
    by (rule parseQuality_default_iff)
qed

theorem parseQuality_leading_integer_witness:
  "parseQuality (JStr ''50.7'') 80 = 50 \<and> parseQuality (JStr ''50abc'') 80 = 50
   \<and> parseQuality (JNum ''50.7'') 80 = 50 \<and> parseQuality (JNum ''1e+21'') 80 = 1
   \<and> parseQuality (JArr [JNum ''42'', JNum ''7'']) 80 = 42
   \<and> \<not> (\<forall>d'. parseQuality (JStr ''50abc'') d' = d')
   \<and> (\<forall>d'. parseQuality (JStr ''abc'') d' = d')
   \<and> (\<forall>d'. parseQuality (JNum ''101'') d' = d')
   \<and> (\<forall>d'. parseQuality (JNum ''0'') d' = d')
   \<and> (\<forall>d'. parseQuality JUndefined d' = d')"
proof -
  have a: "takeWhile isDecimalDigit (ToString (JStr ''50.7'')) = ''50''" by code_simp
  have b: "takeWhile isDecimalDigit (ToString (JStr ''50abc'')) = ''50''" by code_simp
  have c: "takeWhile isDecimalDigit (ToString (JNum ''50.7'')) = ''50''" by code_simp
  have e: "takeWhile isDecimalDigit (ToString (JNum ''1e+21'')) = ''1''" by code_simp
  have f: "takeWhile isDecimalDigit (ToString (JArr [JNum ''42'', JNum ''7''])) = ''42''"
    by code_simp
  have m: "mathInt 10 0 ''50'' = 50" "mathInt 10 0 ''1'' = 1" "mathInt 10 0 ''42'' = 42"
    by code_simp+
  have p1: "parseInt (JStr ''50abc'') = Some 50" by code_simp
  have p2: "parseInt (JStr ''abc'') = None" by code_simp
  have p3: "parseInt (JNum ''101'') = Some 101" by code_simp
  have p4: "parseInt (JNum ''0'') = Some 0" by code_simp
  have p5: "parseInt JUndefined = None" by code_simp
  show ?thesis
    using parseQuality_leading_integer [of "JStr ''50.7''" 80]
      parseQuality_leading_integer [of "JStr ''50abc''" 80]
      parseQuality_leading_integer [of "JNum ''50.7''" 80]
      parseQuality_leading_integer [of "JNum ''1e+21''" 80]
      parseQuality_leading_integer [of "JArr [JNum ''42'', JNum ''7'']" 80]
      parseQuality_leading_integer [of "JStr ''abc''" 80]
      parseQuality_leading_integer [of "JNum ''101''" 80]
      parseQuality_leading_integer [of "JNum ''0''" 80]
      parseQuality_leading_integer [of JUndefined 80]
    unfolding a b c e f m p1 p2 p3 p4 p5 by simp
qed


section \<open>The \<^verbatim>\<open>/compress\<close> handlers\<close>

text \<open>
  On a multipart request the options are always \<^verbatim>\<open>undefined\<close>, the file object never
  reports more bytes than the limit, and validation therefore turns on the MIME type
  alone. Both handlers are unfolded accordingly.
\<close>

lemma request_options_undefined:
  "request_options req = \<lparr> quality = JUndefined, format = JUndefined \<rparr>"
  by (simp add: request_options_def request_body_def get_property_def)

lemma compress_request_plain:
  "compress_request buf (request_options req) =
     \<lparr> call_body = buf, quality_header = None, format_header = None \<rparr>"
  by (simp add: compress_request_def request_options_undefined truthy_def)

lemma bytesRead_capped: "bytesRead (request_file m u) \<le> m"
  by (simp add: request_file_def)

lemma validate_request_file:
  "validateFileUpload fb (Some (request_file m u)) m allowed =
     (if part_mimetype u \<in> set allowed then Valid
      else Invalid (''Invalid file type. Allowed types: '' @ join '', '' allowed))"
  by (simp add: validateFileUpload_def request_file_def)

lemma toBuffer_request_file:
  "toBuffer (request_file m u) =
     (if m < length (part_content u) then Inl (413, ''FST_REQ_FILE_TOO_LARGE'')
      else Inr (part_content u))"
  by (simp add: toBuffer_def request_file_def)

lemma request_file_names:
  "mimetype (request_file m u) = part_mimetype u"
  "filename (request_file m u) = part_filename u"
  "stream (request_file m u) = take m (part_content u)"
  "file_length (request_file m u) = JUndefined"
  by (simp_all add: request_file_def)

lemma validate_no_file: "validateFileUpload fb None m allowed = Invalid ''No file provided''"
  by (simp add: validateFileUpload_def)

lemma str_includes_literal: "str_includes (''Compression failed: '' @ b) ''Compression failed''"
  by simp

lemma catch_reply_compression:
  "catch_reply (''Compression failed: '' @ b) =
     Reply 500 [] (ErrorJson \<lparr> error = True, message = ''Compression failed'',
                               details = Some (''Compression failed: '' @ b),
                               code = Some ''COMPRESSION_ERROR'' \<rparr>)"
  unfolding catch_reply_def createErrorResponse_def
  by (simp only: str_includes_literal if_True) simp

lemma catch_reply_duplex:
  "catch_reply duplex_required =
     Reply 500 [] (ErrorJson \<lparr> error = True, message = ''Upload failed'',
                               details = Some duplex_required,
                               code = Some ''UPLOAD_ERROR'' \<rparr>)"
  by (simp add: catch_reply_def createErrorResponse_def duplex_required_def)

lemma catch_reply_cases:
  "\<exists>m d c. catch_reply msg =
      Reply 500 [] (ErrorJson \<lparr> error = True, message = m, details = d, code = Some c \<rparr>)
    \<and> (m = ''Compression failed'' \<or> m = ''Upload failed'')"
  by (simp add: catch_reply_def createErrorResponse_def)

lemma catch_reply_status: "catch_reply msg \<noteq> Reply 200 hs p"
  by (simp add: catch_reply_def)

lemma handler_v2_no_file:
  "file_part req = None \<Longrightarrow>
   compress_handler_v2 w cfg req =
     (Reply 400 [] (ErrorJson \<lparr> error = True, message = ''Invalid file'',
                               details = Some ''No file provided'',
                               code = Some ''VALIDATION_ERROR'' \<rparr>), [])"
  by (simp add: compress_handler_v2_def validate_no_file createErrorResponse_def)

lemma handler_v1_no_file:
  "file_part req = None \<Longrightarrow>
   compress_handler_v1 w cfg req =
     (Reply 400 [] (ErrorJson \<lparr> error = True, message = ''Invalid file'',
                               details = Some ''No file provided'',
                               code = Some ''VALIDATION_ERROR'' \<rparr>), [])"
  by (simp add: compress_handler_v1_def validate_no_file createErrorResponse_def)

lemma handler_v2_wrong_type:
  "file_part req = Some u \<Longrightarrow> part_mimetype u \<notin> set (allowedMimeTypes cfg) \<Longrightarrow>
   compress_handler_v2 w cfg req =
     (Reply 400 [] (ErrorJson \<lparr> error = True, message = ''Invalid file'',
                               details = Some (''Invalid file type. Allowed types: ''
                                               @ join '', '' (allowedMimeTypes cfg)),
                               code = Some ''VALIDATION_ERROR'' \<rparr>), [])"
  by (simp add: compress_handler_v2_def validate_request_file createErrorResponse_def)

lemma handler_v1_wrong_type:
  "file_part req = Some u \<Longrightarrow> part_mimetype u \<notin> set (allowedMimeTypes cfg) \<Longrightarrow>
   compress_handler_v1 w cfg req =
     (Reply 400 [] (ErrorJson \<lparr> error = True, message = ''Invalid file'',
                               details = Some (''Invalid file type. Allowed types: ''
                                               @ join '', '' (allowedMimeTypes cfg)),
                               code = Some ''VALIDATION_ERROR'' \<rparr>), [])"
  by (simp add: compress_handler_v1_def validate_request_file createErrorResponse_def)

lemma handler_v2_too_large:
  "file_part req = Some u \<Longrightarrow> part_mimetype u \<in> set (allowedMimeTypes cfg) \<Longrightarrow>
   maxSize cfg < length (part_content u) \<Longrightarrow>
   compress_handler_v2 w cfg req = (Thrown 413 ''FST_REQ_FILE_TOO_LARGE'', [])"
  by (simp add: compress_handler_v2_def validate_request_file toBuffer_request_file)

lemma handler_v2_accepted:
  assumes "file_part req = Some u"
    and "part_mimetype u \<in> set (allowedMimeTypes cfg)"
    and "length (part_content u) \<le> maxSize cfg"
  shows "compress_handler_v2 w cfg req =
     (case compress_fetch w (compress_request (part_content u) (request_options req)) of
        FetchRejected m \<Rightarrow> catch_reply m
      | FetchResponse st b \<Rightarrow>
          if \<not> response_ok st then catch_reply (''Compression failed: '' @ b)
          else (case storage_upload w
                       (uploadPath cfg @ ''/'' @ generateUniqueFilename w (part_filename u))
                       b (part_mimetype u) of
                  StorageError m \<Rightarrow> catch_reply (''Supabase upload failed: '' @ m)
                | StorageData p \<Rightarrow> Reply 200 [(''Content-Type'', ''image/jpeg'')] (BufferBody b)),
      [compress_request (part_content u) (request_options req)])"
  using assms
  by (simp add: compress_handler_v2_def validate_request_file toBuffer_request_file
      request_file_names compressImage_def uploadFile_def Let_def
      split: fetch_outcome.splits storage_outcome.splits)

lemma handler_v1_accepted:
  "file_part req = Some u \<Longrightarrow> part_mimetype u \<in> set (allowedMimeTypes cfg) \<Longrightarrow>
   compress_handler_v1 w cfg req =
     (Reply 500 [] (ErrorJson \<lparr> error = True, message = ''Upload failed'',
                               details = Some duplex_required,
                               code = Some ''UPLOAD_ERROR'' \<rparr>), [])"
  by (simp add: compress_handler_v1_def validate_request_file compressImage_def Let_def
      catch_reply_duplex)

lemma sample_request_file: "file_part sample_request = Some sample_file"
  by (simp add: sample_request_def)

lemma sample_file_allowed: "part_mimetype sample_file \<in> set (allowedMimeTypes default_config)"
  by (simp add: sample_file_def default_config_def)

lemma sample_file_fits: "length (part_content sample_file) \<le> maxSize default_config"
  by (simp add: sample_file_def default_config_def)

lemma validate_sample:
  "validateFileUpload fb (Some (request_file (maxSize default_config) sample_file))
     (maxSize default_config) (allowedMimeTypes default_config) = Valid"
  by (simp add: validate_request_file sample_file_allowed)


lemma sample_v2:
  "compress_handler_v2 sample_world default_config sample_request =
     (Reply 200 [(''Content-Type'', ''image/jpeg'')]
        (BufferBody [CHR 0xFF, CHR 0xD8, CHR 0xFF, CHR 0xD9]),
      [\<lparr> call_body = [CHR 0x89, CHR ''P'', CHR ''N'', CHR ''G''],
          quality_header = None, format_header = None \<rparr>])"
  unfolding handler_v2_accepted [OF sample_request_file sample_file_allowed sample_file_fits]
    compress_request_plain
  by (simp add: sample_world_def sample_file_def response_ok_def)


text \<open>
  C2, as stated, fails where the upload is oversized and of a type that is not allowed:
  \<open>validateFileUpload\<close> tests the MIME type first, so a \<^verbatim>\<open>text/plain\<close> file one byte
  over the default limit 10485760 is rejected as an invalid file type, not as too large.
\<close>

theorem oversized_rejection_counterexample:
  "maxSize default_config <
     length (part_content \<lparr> part_mimetype = ''text/plain'', part_filename = ''big.txt'',
                            part_content = replicate 10485761 (CHR ''a''),
                            part_consumed = 65536 \<rparr>)
   \<and> compress_handler_v2 sample_world default_config
       \<lparr> file_part = Some \<lparr> part_mimetype = ''text/plain'', part_filename = ''big.txt'',
                             part_content = replicate 10485761 (CHR ''a''),
                             part_consumed = 65536 \<rparr>,
         form_fields = [] \<rparr>
     = (Reply 400 []
          (ErrorJson \<lparr> error = True, message = ''Invalid file'',
                       details = Some ''Invalid file type. Allowed types: image/jpeg, image/png, image/webp'',
                       code = Some ''VALIDATION_ERROR'' \<rparr>), [])"
proof -
  let ?u = "\<lparr> part_mimetype = ''text/plain'', part_filename = ''big.txt'',
              part_content = replicate 10485761 (CHR ''a''), part_consumed = 65536 \<rparr>"
  have t: "part_mimetype ?u \<notin> set (allowedMimeTypes default_config)"
    by (simp add: default_config_def)
  have j: "join '', '' (allowedMimeTypes default_config) = ''image/jpeg, image/png, image/webp''"
    by (simp add: default_config_def)
  have "compress_handler_v2 sample_world default_config \<lparr> file_part = Some ?u, form_fields = [] \<rparr>
        = (Reply 400 []
             (ErrorJson \<lparr> error = True, message = ''Invalid file'',
                          details = Some (''Invalid file type. Allowed types: ''
                                          @ join '', '' (allowedMimeTypes default_config)),
                          code = Some ''VALIDATION_ERROR'' \<rparr>), [])"
    using handler_v2_wrong_type [OF _ t, of "\<lparr> file_part = Some ?u, form_fields = [] \<rparr>" sample_world]
    by simp
  then show ?thesis
    unfolding j by (simp add: default_config_def)
qed

text \<open>
  C2, amended. A request whose file is larger than the configured maximum (one byte over
  included) never reaches the compression service through the second handler. When the
  MIME type of the file is among the allowed ones, the request is rejected as too large:
  the file object never reports more than the limit, so validation passes, and
  \<^verbatim>\<open>data.toBuffer()\<close> throws \<^verbatim>\<open>FST_REQ_FILE_TOO_LARGE\<close> with status 413, which is
  neither the 400 of validation nor the 500 of a compression failure (see C4). When the
  MIME type is not allowed, the request is rejected with status 400 as an invalid file
  type.
\<close>

theorem oversized_rejected_before_compression:
  assumes "file_part req = Some u" and "maxSize cfg < length (part_content u)"
  shows "snd (compress_handler_v2 w cfg req) = []
       \<and> (part_mimetype u \<in> set (allowedMimeTypes cfg) \<longrightarrow>
            validateFileUpload (formatBytes w) (Some (request_file (maxSize cfg) u)) (maxSize cfg)
              (allowedMimeTypes cfg) = Valid
            \<and> fst (compress_handler_v2 w cfg req) = Thrown 413 ''FST_REQ_FILE_TOO_LARGE'')
       \<and> (part_mimetype u \<notin> set (allowedMimeTypes cfg) \<longrightarrow>
            fst (compress_handler_v2 w cfg req) =
              Reply 400 []
                (ErrorJson \<lparr> error = True, message = ''Invalid file'',
                             details = Some (''Invalid file type. Allowed types: ''
                                             @ join '', '' (allowedMimeTypes cfg)),
                             code = Some ''VALIDATION_ERROR'' \<rparr>))"
proof (cases "part_mimetype u \<in> set (allowedMimeTypes cfg)")
  case True
  from handler_v2_too_large [OF assms(1) True assms(2)] True
  show ?thesis by (simp add: validate_request_file)
next
  case False
  from handler_v2_wrong_type [OF assms(1) False] False
  show ?thesis by simp
qed

theorem oversized_rejected_before_compression_witness:
  "compress_handler_v2 sample_world default_config
       \<lparr> file_part = Some (sample_file \<lparr> part_content := replicate 10485761 (CHR ''a''),
                                         part_consumed := 65536 \<rparr>),
         form_fields = [] \<rparr>
     = (Thrown 413 ''FST_REQ_FILE_TOO_LARGE'', [])"
proof -
  let ?u = "sample_file \<lparr> part_content := replicate 10485761 (CHR ''a''), part_consumed := 65536 \<rparr>"
  let ?req = "\<lparr> file_part = Some ?u, form_fields = [] \<rparr>"
  have a: "file_part ?req = Some ?u" by simp
  have b: "maxSize default_config < length (part_content ?u)"
    by (simp add: default_config_def)
  have c: "part_mimetype ?u \<in> set (allowedMimeTypes default_config)"
    by (simp add: default_config_def sample_file_def)
  from oversized_rejected_before_compression [OF a b, of sample_world] c
  have "snd (compress_handler_v2 sample_world default_config ?req) = []
        \<and> fst (compress_handler_v2 sample_world default_config ?req)
            = Thrown 413 ''FST_REQ_FILE_TOO_LARGE''"
    by blast
  then show ?thesis
    by (cases "compress_handler_v2 sample_world default_config ?req") simp
qed

text \<open>
  C4, as stated, fails on the handler: the claim has a decode failure answered with a
  client error, distinguishable by status from a server-caused failure. \<open>compressImage\<close>
  throws \<^verbatim>\<open>Compression failed: ...\<close> for every response that is not ok, and the handler
  answers it with status 500, whether the compression service said 400 or 500.
\<close>

theorem decode_failure_status_counterexample:
  "fst (compress_handler_v2
          (sample_world \<lparr> compress_fetch := \<lambda>c. FetchResponse 400 ''unsupported image format'' \<rparr>)
          default_config sample_request)
     = Reply 500 [] (ErrorJson \<lparr> error = True, message = ''Compression failed'',
                       details = Some ''Compression failed: unsupported image format'',
                       code = Some ''COMPRESSION_ERROR'' \<rparr>)
   \<and> fst (compress_handler_v2
          (sample_world \<lparr> compress_fetch := \<lambda>c. FetchResponse 500 ''encoder failure'' \<rparr>)
          default_config sample_request)
     = Reply 500 [] (ErrorJson \<lparr> error = True, message = ''Compression failed'',
                       details = Some ''Compression failed: encoder failure'',
                       code = Some ''COMPRESSION_ERROR'' \<rparr>)"
proof -
  have "fst (compress_handler_v2 (sample_world \<lparr> compress_fetch := \<lambda>c. FetchResponse st b \<rparr>)
               default_config sample_request)
        = (if \<not> response_ok st then catch_reply (''Compression failed: '' @ b)
           else Reply 200 [(''Content-Type'', ''image/jpeg'')] (BufferBody b))" for st b
    using handler_v2_accepted [OF sample_request_file sample_file_allowed sample_file_fits,
        of "sample_world \<lparr> compress_fetch := \<lambda>c. FetchResponse st b \<rparr>"]
    by (simp add: sample_world_def)
  then show ?thesis
    using catch_reply_compression [of "''unsupported image format''", simplified]
      catch_reply_compression [of "''encoder failure''", simplified]
    by (simp add: response_ok_def)
qed

text \<open>
  C4, amended. On a request that passes validation and whose file is within the size
  limit, a response of the compression service that is not ok, whatever its status, is
  answered with status 500 and the structured payload \<^verbatim>\<open>{ error: true, message:
  'Compression failed', details, code: 'COMPRESSION_ERROR' }\<close>. A request that passes
  validation is answered in one of three ways: 200 with the compressed bytes, 500 with
  a structured payload whose message is \<^verbatim>\<open>Compression failed\<close> or \<^verbatim>\<open>Upload failed\<close>, or
  413 when the file exceeds the size limit. Status 400 comes from file validation only.
\<close>

theorem compression_failure_is_server_error:
  assumes "file_part req = Some u"
    and "validateFileUpload (formatBytes w) (Some (request_file (maxSize cfg) u)) (maxSize cfg)
           (allowedMimeTypes cfg) = Valid"
  shows "(length (part_content u) \<le> maxSize cfg
            \<and> compress_fetch w (compress_request (part_content u) (request_options req))
                = FetchResponse st b
            \<and> \<not> response_ok st \<longrightarrow>
          fst (compress_handler_v2 w cfg req) =
            Reply 500 [] (ErrorJson \<lparr> error = True, message = ''Compression failed'',
                                      details = Some (''Compression failed: '' @ b),
                                      code = Some ''COMPRESSION_ERROR'' \<rparr>))
       \<and> ((\<exists>buf. fst (compress_handler_v2 w cfg req) =
               Reply 200 [(''Content-Type'', ''image/jpeg'')] (BufferBody buf))
          \<or> (\<exists>m d c. fst (compress_handler_v2 w cfg req) =
               Reply 500 [] (ErrorJson \<lparr> error = True, message = m, details = d, code = Some c \<rparr>)
               \<and> (m = ''Compression failed'' \<or> m = ''Upload failed''))
          \<or> fst (compress_handler_v2 w cfg req) = Thrown 413 ''FST_REQ_FILE_TOO_LARGE'')"
proof -
  have allowed: "part_mimetype u \<in> set (allowedMimeTypes cfg)"
    using assms(2) by (simp add: validate_request_file split: if_splits)
  show ?thesis
  proof (cases "length (part_content u) \<le> maxSize cfg")
    case False
    then have "maxSize cfg < length (part_content u)" by simp
    from handler_v2_too_large [OF assms(1) allowed this] False
    show ?thesis by simp
  next
    case True
    note acc = handler_v2_accepted [OF assms(1) allowed True]
    have first: "fst (compress_handler_v2 w cfg req) =
            Reply 500 [] (ErrorJson \<lparr> error = True, message = ''Compression failed'',
                                      details = Some (''Compression failed: '' @ b),
                                      code = Some ''COMPRESSION_ERROR'' \<rparr>)"
      if "compress_fetch w (compress_request (part_content u) (request_options req))
                = FetchResponse st b" and "\<not> response_ok st"
      using that acc catch_reply_compression by simp
    have second: "(\<exists>buf. fst (compress_handler_v2 w cfg req) =
               Reply 200 [(''Content-Type'', ''image/jpeg'')] (BufferBody buf))
          \<or> (\<exists>m d c. fst (compress_handler_v2 w cfg req) =
               Reply 500 [] (ErrorJson \<lparr> error = True, message = m, details = d, code = Some c \<rparr>)
               \<and> (m = ''Compression failed'' \<or> m = ''Upload failed''))"
      unfolding acc using catch_reply_cases
      by (auto split: fetch_outcome.splits storage_outcome.splits)
    from first second show ?thesis by blast
  qed
qed

theorem compression_failure_is_server_error_witness:
  "fst (compress_handler_v2
          (sample_world \<lparr> compress_fetch := \<lambda>c. FetchResponse 422 ''cannot decode'' \<rparr>)
          default_config sample_request)
     = Reply 500 [] (ErrorJson \<lparr> error = True, message = ''Compression failed'',
                       details = Some ''Compression failed: cannot decode'',
                       code = Some ''COMPRESSION_ERROR'' \<rparr>)"
proof -
  let ?w = "sample_world \<lparr> compress_fetch := \<lambda>c. FetchResponse 422 ''cannot decode'' \<rparr>"
  have v: "validateFileUpload (formatBytes ?w) (Some (request_file (maxSize default_config) sample_file))
             (maxSize default_config) (allowedMimeTypes default_config) = Valid"
    by (rule validate_sample)
  have c: "length (part_content sample_file) \<le> maxSize default_config
           \<and> compress_fetch ?w (compress_request (part_content sample_file) (request_options sample_request))
             = FetchResponse 422 ''cannot decode'' \<and> \<not> response_ok 422"
    by (simp add: response_ok_def sample_file_fits)
  from compression_failure_is_server_error [OF sample_request_file v, of 422 "''cannot decode''"] c
  show ?thesis by simp
qed

text \<open>
  C6 does not hold on the handler: the catch block passes \<^verbatim>\<open>error.message\<close> to
  \<open>createErrorResponse\<close> as the details, so the text the compression service or the
  storage client reported is part of the 500 response.
\<close>

theorem internal_detail_echoed:
  "fst (compress_handler_v2
          (sample_world \<lparr> compress_fetch :=
             \<lambda>c. FetchResponse 500 ''thread main panicked at src/lib.rs:42'' \<rparr>)
          default_config sample_request)
     = Reply 500 [] (ErrorJson \<lparr> error = True, message = ''Compression failed'',
                       details = Some ''Compression failed: thread main panicked at src/lib.rs:42'',
                       code = Some ''COMPRESSION_ERROR'' \<rparr>)
   \<and> fst (compress_handler_v2
          (sample_world \<lparr> storage_upload := \<lambda>p b c. StorageError ''bucket images: row-level security'' \<rparr>)
          default_config sample_request)
     = Reply 500 [] (ErrorJson \<lparr> error = True, message = ''Upload failed'',
                       details = Some ''Supabase upload failed: bucket images: row-level security'',
                       code = Some ''UPLOAD_ERROR'' \<rparr>)"
proof -
  have a: "fst (compress_handler_v2 (sample_world \<lparr> compress_fetch := \<lambda>c. FetchResponse 500 b \<rparr>)
               default_config sample_request)
        = catch_reply (''Compression failed: '' @ b)" for b
    using handler_v2_accepted [OF sample_request_file sample_file_allowed sample_file_fits,
        of "sample_world \<lparr> compress_fetch := \<lambda>c. FetchResponse 500 b \<rparr>"]
    by (simp add: sample_world_def response_ok_def)
  have b: "fst (compress_handler_v2 (sample_world \<lparr> storage_upload := \<lambda>p b c. StorageError m \<rparr>)
               default_config sample_request)
        = catch_reply (''Supabase upload failed: '' @ m)" for m
    using handler_v2_accepted [OF sample_request_file sample_file_allowed sample_file_fits,
        of "sample_world \<lparr> storage_upload := \<lambda>p b c. StorageError m \<rparr>"]
    by (simp add: sample_world_def response_ok_def)
  have c: "catch_reply ''Supabase upload failed: bucket images: row-level security''
           = Reply 500 [] (ErrorJson \<lparr> error = True, message = ''Upload failed'',
                       details = Some ''Supabase upload failed: bucket images: row-level security'',
                       code = Some ''UPLOAD_ERROR'' \<rparr>)"
    by (simp add: catch_reply_def createErrorResponse_def)
  show ?thesis
    unfolding a b
    using catch_reply_compression [of "''thread main panicked at src/lib.rs:42''", simplified] c
    by simp
qed

text \<open>
  C8. Whenever a \<^verbatim>\<open>/compress\<close> request is answered with status 200, the payload is
  exactly the body of the ok response the compression service gave for this request's
  file, and the content type the handler sets is \<^verbatim>\<open>image/jpeg\<close>. Only the second
  handler ever answers 200: the first hands the file stream to \<open>compressImage\<close>, whose
  \<^verbatim>\<open>fetch\<close> refuses it, and so never completes a request.
\<close>

theorem successful_reply_is_jpeg_bytes:
  "(fst (compress_handler_v2 w cfg req) = Reply 200 hs p \<longrightarrow>
     hs = [(''Content-Type'', ''image/jpeg'')]
     \<and> (\<exists>u st bytes. file_part req = Some u
           \<and> compress_fetch w (compress_request (part_content u) (request_options req))
               = FetchResponse st bytes
           \<and> response_ok st \<and> p = BufferBody bytes))
   \<and> fst (compress_handler_v1 w cfg req) \<noteq> Reply 200 hs p"
proof (cases "file_part req")
  case None
  from handler_v2_no_file [OF None] handler_v1_no_file [OF None] show ?thesis by simp
next
  case (Some u)
  show ?thesis
  proof (cases "part_mimetype u \<in> set (allowedMimeTypes cfg)")
    case False
    from handler_v2_wrong_type [OF Some False] handler_v1_wrong_type [OF Some False]
    show ?thesis by simp
  next
    case True
    note v1 = handler_v1_accepted [OF Some True, where w = w]
    show ?thesis
    proof (cases "length (part_content u) \<le> maxSize cfg")
      case False
      then have "maxSize cfg < length (part_content u)" by simp
      from handler_v2_too_large [OF Some True this] v1 show ?thesis by simp
    next
      case fits: True
      show ?thesis
        unfolding handler_v2_accepted [OF Some True fits] v1
        using Some catch_reply_status
        by (auto split: fetch_outcome.splits storage_outcome.splits if_splits)
    qed
  qed
qed

theorem successful_reply_is_jpeg_bytes_witness:
  "fst (compress_handler_v2 sample_world default_config sample_request)
     = Reply 200 [(''Content-Type'', ''image/jpeg'')]
         (BufferBody [CHR 0xFF, CHR 0xD8, CHR 0xFF, CHR 0xD9])
   \<and> (\<exists>u st. file_part sample_request = Some u
           \<and> compress_fetch sample_world (compress_request (part_content u) (request_options sample_request))
               = FetchResponse st [CHR 0xFF, CHR 0xD8, CHR 0xFF, CHR 0xD9]
           \<and> response_ok st)"
proof -
  have r: "fst (compress_handler_v2 sample_world default_config sample_request)
     = Reply 200 [(''Content-Type'', ''image/jpeg'')]
         (BufferBody [CHR 0xFF, CHR 0xD8, CHR 0xFF, CHR 0xD9])"
    by (simp add: sample_v2)
  from successful_reply_is_jpeg_bytes [of sample_world default_config sample_request
      "[(''Content-Type'', ''image/jpeg'')]" "BufferBody [CHR 0xFF, CHR 0xD8, CHR 0xFF, CHR 0xD9]"] r
  show ?thesis by simp
qed





section \<open>Health and metrics\<close>

lemma map_of_replace_value:
  "map_of (replace_value ps k v) k' =
     (if k' = k \<and> map_of ps k \<noteq> None then Some v else map_of ps k')"
  by (induction ps) auto

lemma map_of_insert_index:
  "map_of ps k = None \<Longrightarrow>
   map_of (insert_index ps n k v) k' = (if k' = k then Some v else map_of ps k')"
  by (induction ps) (auto split: option.splits if_splits)

lemma map_of_set_property:
  "map_of (set_property ps k v) k' = (if k' = k then Some v else map_of ps k')"
  by (auto simp: set_property_def map_of_replace_value map_of_insert_index map_add_def
      split: option.splits)

lemma map_of_spread:
  "map_of (foldl (\<lambda>acc (k', x). set_property acc k' x) ps qs) k =
     (case map_of (rev qs) k of None \<Rightarrow> map_of ps k | Some x \<Rightarrow> Some x)"
proof (induction qs arbitrary: ps)
  case Nil
  show ?case by simp
next
  case (Cons q qs)
  obtain k0 x0 where q: "q = (k0, x0)" by (cases q)
  show ?case
    unfolding q
    by (simp add: Cons.IH map_of_set_property map_add_def split: option.splits)
qed

lemma spread_status:
  "get_property (JObj (spread [(''status'', JStr ''ok'')] v)) ''status'' =
     (case map_of (rev (own_properties v)) ''status'' of None \<Rightarrow> JStr ''ok'' | Some x \<Rightarrow> x)"
  by (simp add: get_property_def spread_def map_of_spread split: option.splits)

lemma array_index_samples:
  "array_index ''0'' = Some 0" "array_index ''1'' = Some 1"
  "array_index ''status'' = None" "array_index ''uptime'' = None"
  by (simp_all add: array_index_def isDecimalDigit_def code_unit_def digitValue_def)

lemma own_properties_pair:
  "own_properties (JArr [a, b]) = [(''0'', a), (''1'', b)]"
proof -
  have "decimal 0 = ''0''" "decimal 1 = ''1''" by code_simp+
  moreover have "[0..<length [a, b]] = [0, 1]" by (simp add: upt_rec)
  ultimately show ?thesis by (simp add: own_properties_def)
qed

text \<open>
  C5, as stated, fails on the gateway: the answer of \<^verbatim>\<open>GET /health\<close> is not fixed. The
  handler asks the compression service; when that answers 503 the gateway answers 503,
  and when it answers \<^verbatim>\<open>{"status":"degraded"}\<close> the spread replaces the \<^verbatim>\<open>'ok'\<close>.
\<close>

theorem health_fixed_counterexample:
  "health_handler (sample_world \<lparr> health_fetch := FetchResponse 503 (NotJson ''upstream unavailable'') \<rparr>)
     = Reply 503 [] (ErrorJson \<lparr> error = True, message = ''Service unavailable'',
                       details = Some ''Health check failed'',
                       code = Some ''HEALTH_CHECK_ERROR'' \<rparr>)
   \<and> health_handler (sample_world \<lparr> health_fetch :=
        FetchResponse 200 (JsonBody (JObj [(''status'', JStr ''degraded'')])) \<rparr>)
     = Reply 200 [] (JsonValue (JObj [(''status'', JStr ''degraded'')]))
   \<and> health_handler sample_world = Reply 200 [] (JsonValue (JObj [(''status'', JStr ''ok'')]))"
  by (simp add: health_handler_def getHealth_def response_ok_def createErrorResponse_def
      spread_def own_properties_def set_property_def sample_world_def)

text \<open>
  C5, amended. \<^verbatim>\<open>GET /health\<close> follows the compression service's own health answer.
  When that is an ok response with a JSON body, the gateway answers 200 with
  \<^verbatim>\<open>{ status: 'ok', ...health }\<close>: its status is \<^verbatim>\<open>'ok'\<close> when the body has no
  \<^verbatim>\<open>status\<close> property of its own, and is the body's (last) \<^verbatim>\<open>status\<close> when it has one.
  When the upstream answer is anything else the gateway answers 503 with the code
  \<^verbatim>\<open>HEALTH_CHECK_ERROR\<close>. The answer depends on nothing but that response.
\<close>

theorem health_follows_compression_service:
  "(health_fetch w = FetchResponse st (JsonBody v) \<and> response_ok st \<longrightarrow>
      health_handler w = Reply 200 [] (JsonValue (JObj (spread [(''status'', JStr ''ok'')] v)))
      \<and> (''status'' \<notin> fst ` set (own_properties v) \<longrightarrow>
           get_property (JObj (spread [(''status'', JStr ''ok'')] v)) ''status'' = JStr ''ok'')
      \<and> (map_of (rev (own_properties v)) ''status'' = Some x \<longrightarrow>
           get_property (JObj (spread [(''status'', JStr ''ok'')] v)) ''status'' = x))
   \<and> ((\<forall>st v. health_fetch w = FetchResponse st (JsonBody v) \<longrightarrow> \<not> response_ok st) \<longrightarrow>
        (\<exists>d. health_handler w =
           Reply 503 [] (ErrorJson \<lparr> error = True, message = ''Service unavailable'',
                                     details = d, code = Some ''HEALTH_CHECK_ERROR'' \<rparr>)))
   \<and> (health_fetch w' = health_fetch w \<and> syntaxErrorMessage w' = syntaxErrorMessage w \<longrightarrow>
        health_handler w' = health_handler w)"
proof (intro conjI impI)
  assume "health_fetch w = FetchResponse st (JsonBody v) \<and> response_ok st"
  then show "health_handler w = Reply 200 [] (JsonValue (JObj (spread [(''status'', JStr ''ok'')] v)))"
    by (simp add: health_handler_def getHealth_def)
next
  assume "''status'' \<notin> fst ` set (own_properties v)"
  then have "map_of (rev (own_properties v)) ''status'' = None"
    by (simp add: map_of_eq_None_iff)
  then show "get_property (JObj (spread [(''status'', JStr ''ok'')] v)) ''status'' = JStr ''ok''"
    by (simp add: spread_status)
next
  assume "map_of (rev (own_properties v)) ''status'' = Some x"
  then show "get_property (JObj (spread [(''status'', JStr ''ok'')] v)) ''status'' = x"
    by (simp add: spread_status)
next
  assume "\<forall>st v. health_fetch w = FetchResponse st (JsonBody v) \<longrightarrow> \<not> response_ok st"
  then show "\<exists>d. health_handler w =
           Reply 503 [] (ErrorJson \<lparr> error = True, message = ''Service unavailable'',
                                     details = d, code = Some ''HEALTH_CHECK_ERROR'' \<rparr>)"
    by (auto simp: health_handler_def getHealth_def createErrorResponse_def
        split: fetch_outcome.splits json_body.splits)
next
  assume "health_fetch w' = health_fetch w \<and> syntaxErrorMessage w' = syntaxErrorMessage w"
  then show "health_handler w' = health_handler w"
    by (auto simp: health_handler_def getHealth_def
        split: fetch_outcome.splits json_body.splits)
qed

theorem health_follows_compression_service_witness:
  "health_handler (sample_world \<lparr> health_fetch :=
       FetchResponse 200 (JsonBody (JObj [(''uptime'', JNum ''12'')])) \<rparr>)
     = Reply 200 [] (JsonValue (JObj [(''status'', JStr ''ok''), (''uptime'', JNum ''12'')]))
   \<and> get_property (JObj (spread [(''status'', JStr ''ok'')] (JObj [(''uptime'', JNum ''12'')]))) ''status''
       = JStr ''ok''
   \<and> health_handler (sample_world \<lparr> health_fetch :=
       FetchResponse 200 (JsonBody (JArr [JStr ''a'', JStr ''b''])) \<rparr>)
     = Reply 200 [] (JsonValue (JObj [(''0'', JStr ''a''), (''1'', JStr ''b''), (''status'', JStr ''ok'')]))
   \<and> get_property (JObj (spread [(''status'', JStr ''ok'')]
          (JObj [(''status'', JStr ''degraded''), (''7'', JBool True)]))) ''status''
       = JStr ''degraded''
   \<and> (\<exists>d. health_handler (sample_world \<lparr> health_fetch := FetchRejected ''connect ECONNREFUSED'' \<rparr>)
          = Reply 503 [] (ErrorJson \<lparr> error = True, message = ''Service unavailable'',
                                    details = d, code = Some ''HEALTH_CHECK_ERROR'' \<rparr>))
   \<and> health_handler (sample_world \<lparr> compress_fetch := \<lambda>c. FetchRejected ''connect ECONNREFUSED'' \<rparr>)
       = health_handler sample_world"
proof -
  let ?up = "sample_world \<lparr> health_fetch := FetchResponse 200 (JsonBody (JObj [(''uptime'', JNum ''12'')])) \<rparr>"
  let ?arr = "sample_world \<lparr> health_fetch := FetchResponse 200 (JsonBody (JArr [JStr ''a'', JStr ''b''])) \<rparr>"
  let ?down = "sample_world \<lparr> health_fetch := FetchRejected ''connect ECONNREFUSED'' \<rparr>"
  let ?other = "sample_world \<lparr> compress_fetch := \<lambda>c. FetchRejected ''connect ECONNREFUSED'' \<rparr>"
  let ?deg = "JObj [(''status'', JStr ''degraded''), (''7'', JBool True)]"
  let ?degw = "sample_world \<lparr> health_fetch := FetchResponse 200 (JsonBody ?deg) \<rparr>"
  have a: "health_fetch ?up = FetchResponse 200 (JsonBody (JObj [(''uptime'', JNum ''12'')])) \<and> response_ok 200"
    by (simp add: response_ok_def)
  have a': "health_fetch ?arr = FetchResponse 200 (JsonBody (JArr [JStr ''a'', JStr ''b''])) \<and> response_ok 200"
    by (simp add: response_ok_def)
  have a'': "health_fetch ?degw = FetchResponse 200 (JsonBody ?deg) \<and> response_ok 200"
    by (simp add: response_ok_def)
  have b: "''status'' \<notin> fst ` set (own_properties (JObj [(''uptime'', JNum ''12'')]))"
    by (simp add: own_properties_def)
  have b': "map_of (rev (own_properties ?deg)) ''status'' = Some (JStr ''degraded'')"
    by (simp add: own_properties_def)
  have c: "\<forall>st v. health_fetch ?down = FetchResponse st (JsonBody v) \<longrightarrow> \<not> response_ok st"
    by simp
  have d: "health_fetch ?other = health_fetch sample_world
           \<and> syntaxErrorMessage ?other = syntaxErrorMessage sample_world"
    by simp
  have s: "spread [(''status'', JStr ''ok'')] (JObj [(''uptime'', JNum ''12'')])
           = [(''status'', JStr ''ok''), (''uptime'', JNum ''12'')]"
    by (simp add: spread_def own_properties_def set_property_def array_index_samples)
  have s': "spread [(''status'', JStr ''ok'')] (JArr [JStr ''a'', JStr ''b''])
           = [(''0'', JStr ''a''), (''1'', JStr ''b''), (''status'', JStr ''ok'')]"
    by (simp add: spread_def own_properties_pair set_property_def array_index_samples)
  have r1: "health_handler ?up
              = Reply 200 [] (JsonValue (JObj (spread [(''status'', JStr ''ok'')]
                                                (JObj [(''uptime'', JNum ''12'')]))))
            \<and> get_property (JObj (spread [(''status'', JStr ''ok'')]
                                      (JObj [(''uptime'', JNum ''12'')]))) ''status'' = JStr ''ok''"
    using health_follows_compression_service [of ?up 200 "JObj [(''uptime'', JNum ''12'')]" JNull ?up] a b
    by blast
  have r2: "health_handler ?arr
              = Reply 200 [] (JsonValue (JObj (spread [(''status'', JStr ''ok'')]
                                                (JArr [JStr ''a'', JStr ''b'']))))"
    using health_follows_compression_service [of ?arr 200 "JArr [JStr ''a'', JStr ''b'']" JNull ?arr] a'
    by blast
  have r3: "get_property (JObj (spread [(''status'', JStr ''ok'')] ?deg)) ''status'' = JStr ''degraded''"
    using health_follows_compression_service [of ?degw 200 ?deg "JStr ''degraded''" ?degw] a'' b'
    by blast
  have r4: "\<exists>d. health_handler ?down
              = Reply 503 [] (ErrorJson \<lparr> error = True, message = ''Service unavailable'',
                                        details = d, code = Some ''HEALTH_CHECK_ERROR'' \<rparr>)"
    using health_follows_compression_service [of ?down 0 JNull JNull ?down] c
    by blast
  have r5: "health_handler ?other = health_handler sample_world"
    using health_follows_compression_service [of sample_world 0 JNull JNull ?other] d
    by blast
  from r1 r2 r3 r4 r5 show ?thesis
    unfolding s s' by simp
qed

text \<open>
  C7 does not hold on the gateway: \<open>getMetrics\<close> reads the compression service's answer
  with \<^verbatim>\<open>response.json()\<close>. On a text exposition (one metric per line) that read throws
  and \<^verbatim>\<open>GET /metrics\<close> answers 500; on a JSON body the answer is the parsed value.
\<close>

theorem metrics_not_text_exposition:
  "metrics_handler (sample_world \<lparr> metrics_fetch :=
       FetchResponse 200 (NotJson (''compress_requests_total 3'' @ [CHR 0x0A]
                                   @ ''compress_bytes_processed_total 1024'' @ [CHR 0x0A])) \<rparr>)
     = Reply 500 [] (ErrorJson \<lparr> error = True, message = ''Metrics unavailable'',
                       details = Some ''Unexpected token in JSON at position 0'',
                       code = Some ''METRICS_ERROR'' \<rparr>)
   \<and> metrics_handler sample_world = Reply 200 [] (JsonValue (JObj [(''requests_total'', JNum ''3'')]))"
  by (simp add: metrics_handler_def getMetrics_def response_ok_def createErrorResponse_def
      sample_world_def)


section \<open>The codec pipeline\<close>




end
